theory Spec2Isabelle
  imports Main
begin

section \<open>JavaScript values, strings and promises\<close>

text \<open>
  The daemon glue of Orion exists in two versions in the repository: the bundled-binary
  version \<^verbatim>\<open>src/app/daemon.js\<close> and an earlier, settings-aware version
  (\<^verbatim>\<open>src/unnamed/part_000\<close>). Both are embedded; the definitions of the second carry
  the suffix \<open>_settings\<close>.

  A value read from the settings store, an exit code handed to a \<^verbatim>\<open>close\<close> listener
  and the value a promise settles with are JavaScript values. Numbers are modelled as
  integers: exit codes are integers, and of a stored number only its being zero and its
  decimal form are read. An integer stands for the JavaScript number of that value;
  integers of more than 15 significant digits, fractions, arrays and objects are not
  represented.
\<close>

datatype jsval =
    JUndefined
  | JNull
  | JBool bool
  | JNum int
  | JStr string
  | JProcess string "string list"  \<comment> \<open>the ChildProcess returned by \<^verbatim>\<open>spawn(file, args)\<close>\<close>
  | JError string

text \<open>Truthiness, as tested by \<^verbatim>\<open>if (v)\<close> and by \<^verbatim>\<open>v || d\<close>.\<close>

fun truthy :: "jsval \<Rightarrow> bool" where
  "truthy JUndefined = False"
| "truthy JNull = False"
| "truthy (JBool b) = b"
| "truthy (JNum n) = (n \<noteq> 0)"
| "truthy (JStr s) = (s \<noteq> [])"
| "truthy (JProcess f a) = True"
| "truthy (JError m) = True"

definition js_or :: "jsval \<Rightarrow> jsval \<Rightarrow> jsval" where
  "js_or a b = (if truthy a then a else b)"

text \<open>The decimal digits of a number that is not negative.\<close>

function showDigits :: "int \<Rightarrow> string" where
  "showDigits n =
     (if n < 10 then [''0123456789'' ! nat n]
      else showDigits (n div 10) @ [''0123456789'' ! nat (n mod 10)])"
  by pat_completeness auto
termination
  by (relation "measure nat") auto

declare showDigits.simps [simp del]

text \<open>
  From ten to the power 21 on a number is printed in exponent form: the digits without the
  trailing zeros, a point behind the first of them if there are more, and the exponent.
\<close>

definition showExp :: "int \<Rightarrow> string" where
  "showExp m =
     (let ds = showDigits m;
          sig = rev (dropWhile (\<lambda>c. c = CHR ''0'') (rev ds))
      in case sig of
           [] \<Rightarrow> ''0''
         | d # rest \<Rightarrow>
             d # (if rest = [] then [] else CHR ''.'' # rest) @ ''e+'' @
             showDigits (int (length ds) - 1))"

definition showMagnitude :: "int \<Rightarrow> string" where
  "showMagnitude m = (if m < 1000000000000000000000 then showDigits m else showExp m)"

text \<open>The string a value becomes inside a template literal \<^verbatim>\<open>`${v}`\<close>.\<close>

fun toString :: "jsval \<Rightarrow> string" where
  "toString JUndefined = ''undefined''"
| "toString JNull = ''null''"
| "toString (JBool b) = (if b then ''true'' else ''false'')"
| "toString (JNum n) =
     (if n < 0 then ''-'' @ showMagnitude (- n) else showMagnitude n)"
| "toString (JStr s) = s"
| "toString (JProcess f a) = ''[object Object]''"
| "toString (JError m) = ''Error: '' @ m"

datatype 'a promise = Pending | Resolved 'a | Rejected jsval

text \<open>A promise settles once: a later \<^verbatim>\<open>resolve\<close> or \<^verbatim>\<open>reject\<close> is ignored.\<close>

fun settle :: "'a promise \<Rightarrow> 'a promise \<Rightarrow> 'a promise" where
  "settle Pending q = q"
| "settle p q = p"

section \<open>The world outside the program\<close>

text \<open>
  What the functions read from their environment: the application root directory
  (\<^verbatim>\<open>app-root-dir\<close>), the home directory (\<^verbatim>\<open>app.getPath('home')\<close>), the
  paths at which \<^verbatim>\<open>fs.existsSync\<close> answers true, the \<^verbatim>\<open>electron-settings\<close> store
  by key path, the version field of \<^verbatim>\<open>package.json\<close>, what a shell command does when
  it is run, and the outcome of an HTTP GET by URI.

  A shell command that has ended leaves an exit code (\<^verbatim>\<open>null\<close> after a signal) and what
  it wrote to its standard output and to its standard error; a command that never ends
  leaves nothing.
\<close>

record finished =
  exitCode :: jsval
  stdout :: string
  stderr :: string

record world =
  appRoot :: string
  home :: string
  files :: "string set"
  settings :: "string \<rightharpoonup> jsval"
  version :: string
  runs :: "string \<Rightarrow> finished option"
  web :: "string \<Rightarrow> string promise"

text \<open>What the functions do to their environment, in program order.\<close>

datatype effect =
    Spawn string "string list"
  | Exec string
  | Request string "(string \<times> string) list"
  | ConsoleLog string
  | TmpFileSync
  | CreateWriteStream string
  | Pipe string string
  | SetTimeout nat
  | ShowErrorBox string string
  | AppQuit

fun is_Spawn :: "effect \<Rightarrow> bool" where
  "is_Spawn (Spawn f a) = True"
| "is_Spawn e = False"

text \<open>Effects that ask the outside world a question: a shell command or an HTTP request.\<close>

fun is_probe :: "effect \<Rightarrow> bool" where
  "is_probe (Exec c) = True"
| "is_probe (Request u h) = True"
| "is_probe e = False"

definition getSync :: "world \<Rightarrow> string \<Rightarrow> jsval" where
  "getSync w key = (case settings w key of None \<Rightarrow> JUndefined | Some v \<Rightarrow> v)"

text \<open>
  The library \<^verbatim>\<open>promised-exec\<close>, which is not among the sources, by what it does: the
  promise it returns for a command is resolved with the standard output when the command
  has ended with exit code \<open>0\<close> and has written nothing to its standard error, and is
  rejected otherwise, with an error object of which the text written to the standard
  error is kept here. It stays pending as long as the command runs.
\<close>

definition promisedExec :: "finished option \<Rightarrow> jsval promise" where
  "promisedExec result =
     (case result of
        None \<Rightarrow> Pending
      | Some c \<Rightarrow>
          if exitCode c = JNum 0 \<and> stderr c = [] then Resolved (JStr (stdout c))
          else Rejected (JError (stderr c)))"

text \<open>The promise of a shell command in a given world.\<close>

definition shell :: "world \<Rightarrow> string \<Rightarrow> jsval promise" where
  "shell w cmd = promisedExec (runs w cmd)"

definition exec :: "world \<Rightarrow> string \<Rightarrow> effect list \<times> jsval promise" where
  "exec w cmd = ([Exec cmd], shell w cmd)"

section \<open>Node's \<^verbatim>\<open>path.join\<close> (POSIX)\<close>

text \<open>
  \<^verbatim>\<open>path.join\<close> joins its non-empty arguments with \<^verbatim>\<open>/\<close> and normalises the result:
  empty and \<^verbatim>\<open>.\<close> segments are dropped, \<^verbatim>\<open>..\<close> removes the segment before it (above
  the root of an absolute path it is dropped, at the start of a relative path it is
  kept), a trailing separator is preserved, and the empty path is \<^verbatim>\<open>.\<close>.
\<close>

fun split_sep :: "string \<Rightarrow> string list" where
  "split_sep [] = [[]]"
| "split_sep (c # s) =
     (if c = CHR ''/'' then [] # split_sep s
      else (case split_sep s of [] \<Rightarrow> [[c]] | seg # segs \<Rightarrow> (c # seg) # segs))"

fun norm_seg :: "bool \<Rightarrow> string list \<Rightarrow> string \<Rightarrow> string list" where
  "norm_seg allowAboveRoot res seg =
     (if seg = [] \<or> seg = ''.'' then res
      else if seg = ''..'' then
        (if res \<noteq> [] \<and> last res \<noteq> ''..'' then butlast res
         else if allowAboveRoot then res @ [''..'']
         else res)
      else res @ [seg])"

definition join_sep :: "string list \<Rightarrow> string" where
  "join_sep segs = (case segs of [] \<Rightarrow> [] | x # xs \<Rightarrow> x @ concat (map (\<lambda>y. CHR ''/'' # y) xs))"

definition normalize :: "string \<Rightarrow> string" where
  "normalize path =
     (if path = [] then ''.''
      else
        let isAbsolute = (hd path = CHR ''/'');
            trailingSeparator = (last path = CHR ''/'');
            p = join_sep (foldl (norm_seg (\<not> isAbsolute)) [] (split_sep path))
        in if p = [] then (if isAbsolute then ''/'' else if trailingSeparator then ''./'' else ''.'')
           else (if isAbsolute then ''/'' else []) @ p @ (if trailingSeparator then ''/'' else []))"

definition pathJoin :: "string list \<Rightarrow> string" where
  "pathJoin args =
     (let joined = join_sep (filter (\<lambda>arg. arg \<noteq> []) args)
      in if joined = [] then ''.'' else normalize joined)"

section \<open>The child process life cycle\<close>

text \<open>
  A call that builds a promise around a spawned child leaves behind the effects so far,
  the state of the promise, and the time left on the one timer it may have set. The
  listeners it registered run later, on the events of the child process and the clock.
\<close>

record run =
  trace :: "effect list"
  promise :: "jsval promise"
  timer :: "nat option"

datatype event =
    Elapse nat          \<comment> \<open>milliseconds pass\<close>
  | Close jsval         \<comment> \<open>the child's \<^verbatim>\<open>close\<close> event with its exit code (\<^verbatim>\<open>null\<close> after a signal)\<close>
  | StdoutData string
  | StderrData string

definition elapsed :: "event list \<Rightarrow> nat" where
  "elapsed evs = sum_list (map (\<lambda>e. case e of Elapse d \<Rightarrow> d | _ \<Rightarrow> 0) evs)"

definition spawns :: "effect list \<Rightarrow> effect list" where
  "spawns t = filter is_Spawn t"

section \<open>src/app/daemon.js\<close>

definition getPathIPFSBinary :: "world \<Rightarrow> string" where
  "getPathIPFSBinary w = appRoot w @ ''/go-ipfs/ipfs''"

text \<open>
  \<^verbatim>\<open>startIPFSDaemon\<close>, the synchronous part of the promise executor. The second argument
  is the name of the temporary file that \<^verbatim>\<open>tmpFileSync\<close> created. The two streams of the
  child are piped into the write stream on that file; what the pipes write later is the
  work of the stream library and not part of the trace.
\<close>

definition startIPFSDaemon :: "world \<Rightarrow> string \<Rightarrow> run" where
  "startIPFSDaemon w tmpLog =
     (let binaryPath = getPathIPFSBinary w
      in \<lparr> trace = [Spawn binaryPath [''daemon''],
                    TmpFileSync,
                    CreateWriteStream tmpLog,
                    ConsoleLog (''Logging IPFS logs in: '' @ tmpLog),
                    Pipe ''stdout'' tmpLog,
                    Pipe ''stderr'' tmpLog,
                    SetTimeout 1000],
           promise = Pending,
           timer = Some 1000 \<rparr>)"

text \<open>The listeners of \<^verbatim>\<open>startIPFSDaemon\<close> and its timer callback.\<close>

fun startIPFSDaemon_on :: "world \<Rightarrow> string \<Rightarrow> event \<Rightarrow> run \<Rightarrow> run" where
  "startIPFSDaemon_on w tmpLog (StdoutData data) r =
     r\<lparr>trace := trace r @ [ConsoleLog (''IPFS: '' @ data)]\<rparr>"
| "startIPFSDaemon_on w tmpLog (StderrData data) r =
     r\<lparr>trace := trace r @ [ConsoleLog (''IPFS Error: '' @ data)]\<rparr>"
| "startIPFSDaemon_on w tmpLog (Close exit) r =
     r\<lparr>trace := trace r @
        (if exit \<noteq> JNum 0 then
           [ShowErrorBox ''IPFS was closed, the app will quit''
              (''IPFS Daemon was closed with exit code '' @ toString exit @ ''. '' @
               ''The app will be closed. Try again. '' @
               ''Log file: '' @ tmpLog),
            AppQuit]
         else []) @
        [ConsoleLog (''IPFS Closed: '' @ toString exit)]\<rparr>"
| "startIPFSDaemon_on w tmpLog (Elapse d) r =
     (case timer r of
        None \<Rightarrow> r
      | Some t \<Rightarrow>
          if t \<le> d then
            r\<lparr>promise := settle (promise r) (Resolved (JProcess (getPathIPFSBinary w) [''daemon''])),
              timer := None\<rparr>
          else r\<lparr>timer := Some (t - d)\<rparr>)"

definition isIPFSInitialised :: "world \<Rightarrow> bool" where
  "isIPFSInitialised w =
     (let confFile = pathJoin [home w, ''.ipfs'', ''config''] in confFile \<in> files w)"

definition ensuresIPFSInitialised :: "world \<Rightarrow> string \<Rightarrow> run" where
  "ensuresIPFSInitialised w tmpLog =
     (if isIPFSInitialised w then \<lparr> trace = [], promise = Resolved JUndefined, timer = None \<rparr>
      else
        let binaryPath = getPathIPFSBinary w
        in \<lparr> trace = [ConsoleLog ''Initialising IPFS repository...'',
                      Spawn binaryPath [''init''],
                      TmpFileSync,
                      CreateWriteStream tmpLog,
                      ConsoleLog (''Logging IPFS init logs in: '' @ tmpLog),
                      Pipe ''stdout'' tmpLog,
                      Pipe ''stderr'' tmpLog],
             promise = Pending,
             timer = None \<rparr>)"

text \<open>
  The listeners of \<^verbatim>\<open>ensuresIPFSInitialised\<close>. On a non-zero exit the promise is rejected
  and the \<^verbatim>\<open>resolve()\<close> that follows finds it settled.
\<close>

fun ensuresIPFSInitialised_on :: "world \<Rightarrow> string \<Rightarrow> event \<Rightarrow> run \<Rightarrow> run" where
  "ensuresIPFSInitialised_on w tmpLog (StdoutData data) r =
     r\<lparr>trace := trace r @ [ConsoleLog (''IPFS Init: '' @ data)]\<rparr>"
| "ensuresIPFSInitialised_on w tmpLog (StderrData data) r =
     r\<lparr>trace := trace r @ [ConsoleLog (''IPFS Init Error: '' @ data)]\<rparr>"
| "ensuresIPFSInitialised_on w tmpLog (Close exit) r =
     (let r1 = (if exit \<noteq> JNum 0 then
                  r\<lparr>trace := trace r @
                       [ShowErrorBox ''IPFS init failed. The app will quit''
                          (''IPFS init failed with exit code '' @ toString exit @ ''. '' @
                           ''The app will be closed. Try again. '' @
                           ''Log file: '' @ tmpLog),
                        AppQuit],
                    promise := settle (promise r) (Rejected JUndefined)\<rparr>
                else r)
      in r1\<lparr>promise := settle (promise r1) (Resolved JUndefined)\<rparr>)"
| "ensuresIPFSInitialised_on w tmpLog (Elapse d) r = r"

definition getMultiAddrIPFSDaemon :: string where
  "getMultiAddrIPFSDaemon = ''/ip4/127.0.0.1/tcp/5001''"

text \<open>
  \<^verbatim>\<open>setMultiAddrIPFSDaemon\<close> declares no parameter; what a caller passes all the same
  is the list \<open>arguments\<close>, which the body never reads.
\<close>

definition setMultiAddrIPFSDaemon :: "world \<Rightarrow> jsval list \<Rightarrow> effect list \<times> jsval promise" where
  "setMultiAddrIPFSDaemon w arguments =
     (let binaryPath = getPathIPFSBinary w
      in exec w (binaryPath @ '' config Addresses.API /ip4/127.0.0.1/tcp/5001''))"



subsection \<open>The peer list\<close>

definition CR :: char where "CR = CHR 0x0D"
definition LF :: char where "LF = CHR 0x0A"

text \<open>
  The regular expression \<^verbatim>\<open>/\r?\n/\<close> tried at the start of a string: the optional
  carriage return is taken when a line feed follows it. The result is what is left
  of the string after the match.
\<close>

fun match_eol :: "string \<Rightarrow> string option" where
  "match_eol [] = None"
| "match_eol [c] = (if c = LF then Some [] else None)"
| "match_eol (c # d # s) =
     (if c = CR \<and> d = LF then Some s
      else if c = LF then Some (d # s)
      else None)"

text \<open>
  \<^verbatim>\<open>String.prototype.split\<close> with that separator: scan from the left; at a match close
  the current piece and go on behind the match, otherwise move one character on; the
  rest of the string is the last piece.
\<close>

function split_eol :: "string \<Rightarrow> string \<Rightarrow> string list" where
  "split_eol piece [] = [piece]"
| "split_eol piece (c # s) =
     (case match_eol (c # s) of
        Some rest \<Rightarrow> piece # split_eol [] rest
      | None \<Rightarrow> split_eol (piece @ [c]) s)"
  by pat_completeness auto
termination
  by (relation "measure (\<lambda>(piece, s). length s)")
     (auto elim!: match_eol.elims split: if_splits)

text \<open>The callback that \<^verbatim>\<open>getSiderusPeers\<close> passes to \<^verbatim>\<open>then\<close>.\<close>

definition getSiderusPeers_then :: "string \<Rightarrow> string list" where
  "getSiderusPeers_then res =
     (let peers = split_eol [] res;
          peers = filter (\<lambda>el. length el > 0) peers
      in peers)"

fun then_promise :: "'a promise \<Rightarrow> ('a \<Rightarrow> 'b) \<Rightarrow> 'b promise" where
  "then_promise Pending f = Pending"
| "then_promise (Resolved x) f = Resolved (f x)"
| "then_promise (Rejected e) f = Rejected e"

definition getSiderusPeers :: "world \<Rightarrow> effect list \<times> string list promise" where
  "getSiderusPeers w =
     ([Request ''https://meta.siderus.io/ipfs/peers.txt''
         [(''User-Agent'', ''Orion/'' @ version w)]],
      then_promise (web w ''https://meta.siderus.io/ipfs/peers.txt'') getSiderusPeers_then)"

section \<open>The settings-aware version, \<^verbatim>\<open>src/unnamed/part_000\<close>\<close>

definition getPathIPFSBinary_settings :: "world \<Rightarrow> jsval" where
  "getPathIPFSBinary_settings w =
     js_or (getSync w ''daemon.pathIPFSBinary'') (JStr ''/usr/local/bin/ipfs'')"

text \<open>
  \<^verbatim>\<open>spawn\<close> throws a TypeError when its file argument is not a string; thrown inside
  the promise executor, it rejects the promise.
\<close>

definition startIPFSDaemon_settings :: "world \<Rightarrow> run" where
  "startIPFSDaemon_settings w =
     (if getSync w ''daemon.startIPFSAtStartup'' = JBool False then
        \<lparr> trace = [], promise = Resolved JUndefined, timer = None \<rparr>
      else
        case getPathIPFSBinary_settings w of
          JStr binaryPath \<Rightarrow>
            \<lparr> trace = [Spawn binaryPath [''daemon'']],
              promise = Resolved (JProcess binaryPath [''daemon'']),
              timer = None \<rparr>
        | _ \<Rightarrow>
            \<lparr> trace = [],
              promise = Rejected (JError ''TypeError''),
              timer = None \<rparr>)"

fun startIPFSDaemon_settings_on :: "world \<Rightarrow> event \<Rightarrow> run \<Rightarrow> run" where
  "startIPFSDaemon_settings_on w (StdoutData data) r =
     r\<lparr>trace := trace r @ [ConsoleLog (''IPFS: '' @ data)]\<rparr>"
| "startIPFSDaemon_settings_on w (StderrData data) r =
     r\<lparr>trace := trace r @ [ConsoleLog (''IPFS Error: '' @ data)]\<rparr>"
| "startIPFSDaemon_settings_on w (Close exit) r =
     r\<lparr>trace := trace r @ [ConsoleLog (''IPFS Closed: '' @ toString exit)]\<rparr>"
| "startIPFSDaemon_settings_on w (Elapse d) r = r"

definition getMultiAddrIPFSDaemon_settings :: "world \<Rightarrow> jsval" where
  "getMultiAddrIPFSDaemon_settings w =
     (let settingsAddress = getSync w ''daemon.multiAddrAPI''
      in if truthy settingsAddress then settingsAddress
         else JStr ''/ip4/127.0.0.1/tcp/5001'')"

definition setMultiAddrIPFSDaemon_settings :: "world \<Rightarrow> jsval list \<Rightarrow> effect list \<times> jsval promise" where
  "setMultiAddrIPFSDaemon_settings w arguments =
     (let binaryPath = getPathIPFSBinary_settings w
      in exec w (toString binaryPath @ '' config Addresses.API /ip4/127.0.0.1/tcp/5001''))"


definition getSiderusPeers_settings :: "world \<Rightarrow> effect list \<times> string list promise" where
  "getSiderusPeers_settings w =
     ([Request ''https://peers.siderus.io/ipfs.txt''
         [(''User-Agent'', ''Lumpy/'' @ version w)]],
      then_promise (web w ''https://peers.siderus.io/ipfs.txt'') getSiderusPeers_then)"

section \<open>Notions used to state the properties\<close>

text \<open>
  Splitting a text on line breaks, as the specification words it: the text is cut at
  every line feed, and a line that a line feed closed loses the carriage return in
  front of that line feed, if there is one.
\<close>

fun split_LF :: "string \<Rightarrow> string list" where
  "split_LF [] = [[]]"
| "split_LF (c # s) =
     (if c = LF then [] # split_LF s
      else (case split_LF s of [] \<Rightarrow> [[c]] | l # ls \<Rightarrow> (c # l) # ls))"

definition chomp_CR :: "string \<Rightarrow> string" where
  "chomp_CR l = (if l \<noteq> [] \<and> last l = CR then butlast l else l)"

definition spec_lines :: "string \<Rightarrow> string list" where
  "spec_lines body = map chomp_CR (butlast (split_LF body)) @ [last (split_LF body)]"

text \<open>The effects by which the application fails in front of the user.\<close>

fun is_fatal :: "effect \<Rightarrow> bool" where
  "is_fatal (ShowErrorBox title msg) = True"
| "is_fatal AppQuit = True"
| "is_fatal e = False"

text \<open>The two ways a promise is settled.\<close>

fun is_Resolved :: "'a promise \<Rightarrow> bool" where
  "is_Resolved (Resolved x) = True"
| "is_Resolved p = False"


text \<open>An absolute path in normal form, without a trailing separator.\<close>

definition normal_abs :: "string \<Rightarrow> bool" where
  "normal_abs p = (p \<noteq> [] \<and> hd p = CHR ''/'' \<and> last p \<noteq> CHR ''/'' \<and> normalize p = p)"

text \<open>
  A machine to evaluate the definitions on: the repository is initialised, a binary path
  is stored in the settings, every shell command ends with exit code \<open>0\<close> and silently,
  and the peer list has two addresses, an empty line and both kinds of line break. Two
  more kinds of shell command: one that ends with exit code \<open>0\<close> after a warning on its
  standard error, and one that ends with exit code \<open>1\<close>.
\<close>

definition runs_silent :: "string \<Rightarrow> finished option" where
  "runs_silent cmd = Some \<lparr> exitCode = JNum 0, stdout = [], stderr = [] \<rparr>"



definition world_example :: world where
  "world_example =
     \<lparr> appRoot = ''/opt/Orion'',
       home = ''/home/alice'',
       files = {''/home/alice/.ipfs/config''},
       settings = [''daemon.pathIPFSBinary'' \<mapsto> JStr ''/opt/ipfs/ipfs''],
       version = ''0.4.0'',
       runs = runs_silent,
       web = (\<lambda>uri. Resolved (''/ip4/10.0.0.1/tcp/4001'' @ [CR, LF] @ [LF] @
                                 ''/ip4/10.0.0.2/tcp/4001'' @ [LF])) \<rparr>"

section \<open>Splitting the peer list\<close>

lemma split_LF_nonempty: "split_LF s \<noteq> []"
  by (cases s) (auto split: list.splits)

lemma split_LF_Cons:
  "split_LF (c # s) =
     (if c = LF then [] # split_LF s else (c # hd (split_LF s)) # tl (split_LF s))"
  using split_LF_nonempty[of s] by (cases "split_LF s") simp_all

lemma spec_lines_nonempty: "spec_lines s \<noteq> []"
  by (simp add: spec_lines_def)

lemma CR_neq_LF: "CR \<noteq> LF"
  by (simp add: CR_def LF_def)

lemma spec_lines_Nil: "spec_lines [] = [[]]"
  by (simp add: spec_lines_def)

lemma spec_lines_LF: "spec_lines (LF # s) = [] # spec_lines s"
  using split_LF_nonempty[of s]
  by (simp add: spec_lines_def chomp_CR_def)

lemma spec_lines_CRLF: "spec_lines (CR # LF # s) = [] # spec_lines s"
  using split_LF_nonempty[of s] CR_neq_LF
  by (simp add: spec_lines_def chomp_CR_def)

lemma spec_lines_other:
  assumes "c \<noteq> LF" and "\<not> (c = CR \<and> (\<exists>t. s = LF # t))"
  shows "spec_lines (c # s) = (c # hd (spec_lines s)) # tl (spec_lines s)"
proof (cases "tl (split_LF s) = []")
  case True
  then obtain l where l: "split_LF s = [l]"
    using split_LF_nonempty[of s] by (cases "split_LF s") auto
  show ?thesis using assms(1) l by (simp add: spec_lines_def)
next
  case False
  then obtain l m ms where l: "split_LF s = l # m # ms"
    using split_LF_nonempty[of s] by (cases "split_LF s"; cases "tl (split_LF s)") auto
  have "chomp_CR (c # l) = c # chomp_CR l"
  proof (cases "l = []")
    case True
    then have "\<exists>t. s = LF # t" using l by (cases s) (auto split: if_splits list.splits)
    then have "c \<noteq> CR" using assms(2) by blast
    then show ?thesis using True by (simp add: chomp_CR_def)
  next
    case False
    then show ?thesis by (simp add: chomp_CR_def)
  qed
  then show ?thesis using assms(1) l by (simp add: spec_lines_def)
qed

lemma split_eol_spec_lines:
  "split_eol piece s = (piece @ hd (spec_lines s)) # tl (spec_lines s)"
proof (induction piece s rule: split_eol.induct)
  case (1 piece)
  show ?case by (simp add: spec_lines_Nil)
next
  case (2 piece c s)
  show ?case
  proof (cases "match_eol (c # s)")
    case None
    then have "c \<noteq> LF" and "\<not> (c = CR \<and> (\<exists>t. s = LF # t))"
      by (cases s; auto split: if_splits)+
    then have "spec_lines (c # s) = (c # hd (spec_lines s)) # tl (spec_lines s)"
      by (rule spec_lines_other)
    then show ?thesis using None 2(1)[OF None] by simp
  next
    case (Some rest)
    then have "spec_lines (c # s) = [] # spec_lines rest"
      by (cases s) (auto split: if_splits simp: spec_lines_LF spec_lines_CRLF)
    then show ?thesis using Some 2(2)[OF Some] spec_lines_nonempty[of rest] by simp
  qed
qed

lemma split_eol_eq_spec_lines: "split_eol [] s = spec_lines s"
  using spec_lines_nonempty[of s] by (simp add: split_eol_spec_lines)

text \<open>
  C1. For every response body, the callback of \<^verbatim>\<open>getSiderusPeers\<close> returns exactly the
  lines of the body, split on line breaks (a line feed, or a carriage return and a line
  feed), without the empty ones: the result has no empty string, and every non-empty
  line of the body is in it. Both versions of \<^verbatim>\<open>getSiderusPeers\<close> resolve with that list
  for the body the server sent.
\<close>

theorem getSiderusPeers_nonempty_lines:
  "getSiderusPeers_then body = filter (\<lambda>l. l \<noteq> []) (spec_lines body)
   \<and> [] \<notin> set (getSiderusPeers_then body)
   \<and> (\<forall>l \<in> set (spec_lines body). l \<noteq> [] \<longrightarrow> l \<in> set (getSiderusPeers_then body))
   \<and> (web w ''https://meta.siderus.io/ipfs/peers.txt'' = Resolved body \<longrightarrow>
        snd (getSiderusPeers w) = Resolved (getSiderusPeers_then body))
   \<and> (web w ''https://peers.siderus.io/ipfs.txt'' = Resolved body \<longrightarrow>
        snd (getSiderusPeers_settings w) = Resolved (getSiderusPeers_then body))"
proof -
  have eq: "getSiderusPeers_then body = filter (\<lambda>l. l \<noteq> []) (spec_lines body)"
    by (simp add: getSiderusPeers_then_def split_eol_eq_spec_lines)
  have a: "[] \<notin> set (getSiderusPeers_then body)"
    by (simp add: eq)
  have b: "\<forall>l \<in> set (spec_lines body). l \<noteq> [] \<longrightarrow> l \<in> set (getSiderusPeers_then body)"
    by (simp add: eq)
  have c: "web w ''https://meta.siderus.io/ipfs/peers.txt'' = Resolved body \<longrightarrow>
        snd (getSiderusPeers w) = Resolved (getSiderusPeers_then body)"
    by (simp add: getSiderusPeers_def)
  have d: "web w ''https://peers.siderus.io/ipfs.txt'' = Resolved body \<longrightarrow>
        snd (getSiderusPeers_settings w) = Resolved (getSiderusPeers_then body)"
    by (simp add: getSiderusPeers_settings_def)
  from eq a b c d show ?thesis by blast
qed


theorem getSiderusPeers_nonempty_lines_witness:
  "getSiderusPeers_then (''/ip4/10.0.0.1/tcp/4001'' @ [CR, LF] @ [LF] @ ''/ip4/10.0.0.2/tcp/4001'' @ [LF])
     = [''/ip4/10.0.0.1/tcp/4001'', ''/ip4/10.0.0.2/tcp/4001'']
   \<and> ''/ip4/10.0.0.2/tcp/4001'' \<in> set (spec_lines (''/ip4/10.0.0.1/tcp/4001'' @ [CR, LF] @ [LF] @ ''/ip4/10.0.0.2/tcp/4001'' @ [LF]))
   \<and> web world_example ''https://meta.siderus.io/ipfs/peers.txt''
       = Resolved (''/ip4/10.0.0.1/tcp/4001'' @ [CR, LF] @ [LF] @ ''/ip4/10.0.0.2/tcp/4001'' @ [LF])
   \<and> snd (getSiderusPeers world_example)
       = Resolved [''/ip4/10.0.0.1/tcp/4001'', ''/ip4/10.0.0.2/tcp/4001'']
   \<and> snd (getSiderusPeers_settings world_example)
       = Resolved [''/ip4/10.0.0.1/tcp/4001'', ''/ip4/10.0.0.2/tcp/4001'']"
  using getSiderusPeers_nonempty_lines
    [of "''/ip4/10.0.0.1/tcp/4001'' @ [CR, LF] @ [LF] @ ''/ip4/10.0.0.2/tcp/4001'' @ [LF]" world_example]
  by (simp add: world_example_def spec_lines_def chomp_CR_def CR_def LF_def)

section \<open>The configuration file path\<close>

lemma split_sep_nonempty: "split_sep s \<noteq> []"
  by (cases s) (auto split: list.splits)

lemma split_sep_Cons:
  "split_sep (c # s) =
     (if c = CHR ''/'' then [] # split_sep s else (c # hd (split_sep s)) # tl (split_sep s))"
  using split_sep_nonempty[of s] by (cases "split_sep s") simp_all

lemma split_sep_append:
  "split_sep (a @ CHR ''/'' # b) = split_sep a @ split_sep b"
proof (induction a)
  case Nil
  show ?case by simp
next
  case (Cons c a)
  then show ?case using split_sep_nonempty[of a]
    by (simp del: split_sep.simps(2) add: split_sep_Cons)
qed

lemma join_sep_snoc2:
  "S \<noteq> [] \<Longrightarrow> join_sep (S @ [a, b]) = join_sep S @ CHR ''/'' # a @ CHR ''/'' # b"
  by (cases S) (simp_all add: join_sep_def)

lemma pathJoin_home_config:
  assumes "normal_abs h"
  shows "pathJoin [h, ''.ipfs'', ''config''] = h @ ''/.ipfs/config''"
proof -
  define S where "S = foldl (norm_seg False) [] (split_sep h)"
  from assms have h: "h \<noteq> []" "hd h = CHR ''/''" "last h \<noteq> CHR ''/''" "normalize h = h"
    by (simp_all add: normal_abs_def)
  have nh: "normalize h = (if join_sep S = [] then ''/'' else ''/'' @ join_sep S)"
    using h(1,2,3) by (simp add: normalize_def S_def Let_def)
  have jS: "join_sep S \<noteq> []"
  proof
    assume "join_sep S = []"
    then have "h = ''/''" using nh h(4) by simp
    then show False using h(3) by simp
  qed
  then have S: "S \<noteq> []" by (auto simp: join_sep_def)
  have hS: "h = CHR ''/'' # join_sep S" using nh h(4) jS by simp
  have sp: "split_sep (h @ ''/.ipfs/config'') = split_sep h @ [''.ipfs'', ''config'']"
    using split_sep_append[of h "''.ipfs/config''"] by simp
  have fo: "foldl (norm_seg False) [] (split_sep (h @ ''/.ipfs/config'')) = S @ [''.ipfs'', ''config'']"
    by (simp add: sp S_def)
  have "normalize (h @ ''/.ipfs/config'') = CHR ''/'' # join_sep (S @ [''.ipfs'', ''config''])"
    using h(1,2) S by (simp add: normalize_def fo Let_def join_sep_snoc2 del: norm_seg.simps)
  also have "\<dots> = h @ ''/.ipfs/config''"
    using hS S by (simp add: join_sep_snoc2)
  finally have "normalize (h @ ''/.ipfs/config'') = h @ ''/.ipfs/config''" .
  moreover have "join_sep (filter (\<lambda>arg. arg \<noteq> []) [h, ''.ipfs'', ''config'']) = h @ ''/.ipfs/config''"
    using h(1) by (simp add: join_sep_def)
  ultimately show ?thesis using h(1) by (simp add: pathJoin_def Let_def)
qed

lemma normal_abs_example: "normal_abs ''/home/alice''"
  by (simp add: normal_abs_def normalize_def join_sep_def)

lemma pathJoin_example: "pathJoin [''/home/alice'', ''.ipfs'', ''config''] = ''/home/alice/.ipfs/config''"
  using pathJoin_home_config[OF normal_abs_example] by simp

lemma world_example_fields:
  "appRoot world_example = ''/opt/Orion''"
  "home world_example = ''/home/alice''"
  "files world_example = {''/home/alice/.ipfs/config''}"
  "settings world_example = [''daemon.pathIPFSBinary'' \<mapsto> JStr ''/opt/ipfs/ipfs'']"
  "version world_example = ''0.4.0''"
  "runs world_example = runs_silent"
  by (simp_all add: world_example_def)

text \<open>
  C8. \<^verbatim>\<open>isIPFSInitialised\<close> is true exactly when the path that \<^verbatim>\<open>path.join\<close> builds from
  the home directory, \<^verbatim>\<open>.ipfs\<close> and \<^verbatim>\<open>config\<close> exists; for a home directory given as
  an absolute path in normal form that path is the home directory followed by
  \<^verbatim>\<open>/.ipfs/config\<close>. The answer depends on the home directory and the file system only,
  and the function returns nothing but the answer.
\<close>

theorem isIPFSInitialised_iff_config_exists:
  "(isIPFSInitialised w \<longleftrightarrow> pathJoin [home w, ''.ipfs'', ''config''] \<in> files w)
   \<and> (normal_abs (home w) \<longrightarrow>
        (isIPFSInitialised w \<longleftrightarrow> home w @ ''/.ipfs/config'' \<in> files w))
   \<and> (home w' = home w \<and> files w' = files w \<longrightarrow>
        isIPFSInitialised w' = isIPFSInitialised w)"
proof -
  have a: "isIPFSInitialised w \<longleftrightarrow> pathJoin [home w, ''.ipfs'', ''config''] \<in> files w"
    by (simp add: isIPFSInitialised_def)
  have b: "normal_abs (home w) \<longrightarrow>
        (isIPFSInitialised w \<longleftrightarrow> home w @ ''/.ipfs/config'' \<in> files w)"
    by (simp add: isIPFSInitialised_def pathJoin_home_config)
  have c: "home w' = home w \<and> files w' = files w \<longrightarrow>
        isIPFSInitialised w' = isIPFSInitialised w"
    by (simp add: isIPFSInitialised_def)
  from a b c show ?thesis by blast
qed

theorem isIPFSInitialised_iff_config_exists_witness:
  "normal_abs (home world_example)
   \<and> home world_example @ ''/.ipfs/config'' \<in> files world_example
   \<and> isIPFSInitialised world_example
   \<and> home (world_example\<lparr>appRoot := ''/Applications/Orion'', settings := Map.empty\<rparr>) = home world_example
   \<and> files (world_example\<lparr>appRoot := ''/Applications/Orion'', settings := Map.empty\<rparr>) = files world_example
   \<and> isIPFSInitialised (world_example\<lparr>appRoot := ''/Applications/Orion'', settings := Map.empty\<rparr>)
   \<and> normal_abs (home (world_example\<lparr>files := {}\<rparr>))
   \<and> \<not> isIPFSInitialised (world_example\<lparr>files := {}\<rparr>)"
  using isIPFSInitialised_iff_config_exists
          [of world_example "world_example\<lparr>appRoot := ''/Applications/Orion'', settings := Map.empty\<rparr>"]
        isIPFSInitialised_iff_config_exists [of "world_example\<lparr>files := {}\<rparr>" world_example]
        normal_abs_example
  by (simp add: world_example_fields pathJoin_example)

section \<open>Initialising the repository\<close>

lemma ensuresIPFSInitialised_on_spawns:
  "spawns (trace (ensuresIPFSInitialised_on w tmpLog e r)) = spawns (trace r)"
  by (cases e) (simp_all add: spawns_def Let_def)

lemma ensuresIPFSInitialised_fold_spawns:
  "spawns (trace (fold (ensuresIPFSInitialised_on w tmpLog) evs r)) = spawns (trace r)"
  by (induction evs arbitrary: r) (simp_all add: ensuresIPFSInitialised_on_spawns)

text \<open>
  C4. When the configuration file exists, \<^verbatim>\<open>ensuresIPFSInitialised\<close> returns a promise
  that is already resolved and does nothing else. When it does not exist, the call
  spawns the binary with the one argument \<^verbatim>\<open>init\<close>, once, and the promise is pending;
  whatever events its listeners then handle, no further process is spawned.
\<close>

theorem ensuresIPFSInitialised_spawns_init_once:
  "(pathJoin [home w, ''.ipfs'', ''config''] \<in> files w \<longrightarrow>
      ensuresIPFSInitialised w tmpLog = \<lparr> trace = [], promise = Resolved JUndefined, timer = None \<rparr>)
   \<and> (pathJoin [home w, ''.ipfs'', ''config''] \<notin> files w \<longrightarrow>
      spawns (trace (ensuresIPFSInitialised w tmpLog)) = [Spawn (getPathIPFSBinary w) [''init'']]
      \<and> promise (ensuresIPFSInitialised w tmpLog) = Pending)
   \<and> spawns (trace (fold (ensuresIPFSInitialised_on w tmpLog) evs (ensuresIPFSInitialised w tmpLog)))
       = spawns (trace (ensuresIPFSInitialised w tmpLog))"
proof -
  have a: "pathJoin [home w, ''.ipfs'', ''config''] \<in> files w \<longrightarrow>
      ensuresIPFSInitialised w tmpLog = \<lparr> trace = [], promise = Resolved JUndefined, timer = None \<rparr>"
    by (simp add: ensuresIPFSInitialised_def isIPFSInitialised_def)
  have b: "pathJoin [home w, ''.ipfs'', ''config''] \<notin> files w \<longrightarrow>
      spawns (trace (ensuresIPFSInitialised w tmpLog)) = [Spawn (getPathIPFSBinary w) [''init'']]
      \<and> promise (ensuresIPFSInitialised w tmpLog) = Pending"
    by (simp add: ensuresIPFSInitialised_def isIPFSInitialised_def spawns_def)
  from a b show ?thesis
    by (simp add: ensuresIPFSInitialised_fold_spawns)
qed

theorem ensuresIPFSInitialised_spawns_init_once_witness:
  "pathJoin [home world_example, ''.ipfs'', ''config''] \<in> files world_example
   \<and> ensuresIPFSInitialised world_example ''/tmp/tmp-1.log'' = \<lparr> trace = [], promise = Resolved JUndefined, timer = None \<rparr>
   \<and> pathJoin [home (world_example\<lparr>files := {}\<rparr>), ''.ipfs'', ''config''] \<notin> files (world_example\<lparr>files := {}\<rparr>)
   \<and> spawns (trace (fold (ensuresIPFSInitialised_on (world_example\<lparr>files := {}\<rparr>) ''/tmp/tmp-1.log'')
                 [StdoutData ''initializing'', Close (JNum 0)]
                 (ensuresIPFSInitialised (world_example\<lparr>files := {}\<rparr>) ''/tmp/tmp-1.log'')))
       = [Spawn ''/opt/Orion/go-ipfs/ipfs'' [''init'']]"
  using ensuresIPFSInitialised_spawns_init_once [of world_example "''/tmp/tmp-1.log''" "[]"]
        ensuresIPFSInitialised_spawns_init_once [of "world_example\<lparr>files := {}\<rparr>" "''/tmp/tmp-1.log''"
           "[StdoutData ''initializing'', Close (JNum 0)]"]
  by (simp add: world_example_fields pathJoin_example getPathIPFSBinary_def)

section \<open>Supervising the child process\<close>

text \<open>
  C3, as amended. In \<^verbatim>\<open>src/app/daemon.js\<close> the \<^verbatim>\<open>close\<close> listener of the daemon and the one of
  the init process show an error box and quit the application when the exit code is
  not \<open>0\<close>, and do neither when it is \<open>0\<close>. In the settings-aware version the
  \<^verbatim>\<open>close\<close> listener of the daemon only logs the exit code, whatever it is.
\<close>

theorem close_listener_fatal_iff_nonzero:
  "filter is_fatal (trace (startIPFSDaemon_on w tmpLog (Close exit) r)) =
     filter is_fatal (trace r) @
     (if exit \<noteq> JNum 0 then
        [ShowErrorBox ''IPFS was closed, the app will quit''
           (''IPFS Daemon was closed with exit code '' @ toString exit @
            ''. The app will be closed. Try again. Log file: '' @ tmpLog),
         AppQuit]
      else [])
   \<and> filter is_fatal (trace (ensuresIPFSInitialised_on w tmpLog (Close exit) r)) =
     filter is_fatal (trace r) @
     (if exit \<noteq> JNum 0 then
        [ShowErrorBox ''IPFS init failed. The app will quit''
           (''IPFS init failed with exit code '' @ toString exit @
            ''. The app will be closed. Try again. Log file: '' @ tmpLog),
         AppQuit]
      else [])
   \<and> filter is_fatal (trace (startIPFSDaemon_settings_on w (Close exit) r)) =
     filter is_fatal (trace r)
   \<and> trace (startIPFSDaemon_settings_on w (Close exit) r) =
     trace r @ [ConsoleLog (''IPFS Closed: '' @ toString exit)]"
  by (simp add: Let_def)

theorem close_listener_fatal_iff_nonzero_witness:
  "filter is_fatal (trace (startIPFSDaemon_on world_example ''/tmp/tmp-1.log'' (Close (JNum 1))
       (startIPFSDaemon world_example ''/tmp/tmp-1.log''))) =
     [ShowErrorBox ''IPFS was closed, the app will quit''
        ''IPFS Daemon was closed with exit code 1. The app will be closed. Try again. Log file: /tmp/tmp-1.log'',
      AppQuit]
   \<and> filter is_fatal (trace (startIPFSDaemon_on world_example ''/tmp/tmp-1.log'' (Close (JNum 0))
       (startIPFSDaemon world_example ''/tmp/tmp-1.log''))) = []
   \<and> filter is_fatal (trace (ensuresIPFSInitialised_on world_example ''/tmp/tmp-1.log'' (Close JNull)
       (ensuresIPFSInitialised (world_example\<lparr>files := {}\<rparr>) ''/tmp/tmp-1.log''))) =
     [ShowErrorBox ''IPFS init failed. The app will quit''
        ''IPFS init failed with exit code null. The app will be closed. Try again. Log file: /tmp/tmp-1.log'',
      AppQuit]"
  using close_listener_fatal_iff_nonzero
          [of world_example "''/tmp/tmp-1.log''" "JNum 1" "startIPFSDaemon world_example ''/tmp/tmp-1.log''"]
        close_listener_fatal_iff_nonzero
          [of world_example "''/tmp/tmp-1.log''" "JNum 0" "startIPFSDaemon world_example ''/tmp/tmp-1.log''"]
        close_listener_fatal_iff_nonzero
          [of world_example "''/tmp/tmp-1.log''" "JNull" "ensuresIPFSInitialised (world_example\<lparr>files := {}\<rparr>) ''/tmp/tmp-1.log''"]
  by (simp add: startIPFSDaemon_def ensuresIPFSInitialised_def showDigits.simps showMagnitude_def)

text \<open>
  The settings-aware version on a daemon that closes with exit code 1: the whole trace
  is the spawn and one line on the console.
\<close>

theorem close_settings_only_logs_counterexample:
  "trace (startIPFSDaemon_settings_on world_example (Close (JNum 1))
       (startIPFSDaemon_settings world_example)) =
     [Spawn ''/opt/ipfs/ipfs'' [''daemon''], ConsoleLog ''IPFS Closed: 1'']
   \<and> filter is_fatal (trace (startIPFSDaemon_settings_on world_example (Close (JNum 1))
       (startIPFSDaemon_settings world_example))) = []"
  by (simp add: startIPFSDaemon_settings_def getPathIPFSBinary_settings_def js_or_def
        getSync_def world_example_fields showDigits.simps showMagnitude_def)


section \<open>Starting the daemon\<close>

lemma startIPFSDaemon_on_no_timer:
  "timer r = None \<Longrightarrow>
     timer (startIPFSDaemon_on w tmpLog e r) = None
     \<and> promise (startIPFSDaemon_on w tmpLog e r) = promise r"
  by (cases e) simp_all

lemma startIPFSDaemon_fold_no_timer:
  "timer r = None \<Longrightarrow> promise (fold (startIPFSDaemon_on w tmpLog) evs r) = promise r"
proof (induction evs arbitrary: r)
  case Nil
  show ?case by simp
next
  case (Cons e evs)
  have "timer (startIPFSDaemon_on w tmpLog e r) = None"
    and "promise (startIPFSDaemon_on w tmpLog e r) = promise r"
    using startIPFSDaemon_on_no_timer[OF Cons.prems] by simp_all
  then show ?case using Cons.IH by simp
qed

lemma elapsed_Cons:
  "elapsed (e # evs) = (case e of Elapse d \<Rightarrow> d | _ \<Rightarrow> 0) + elapsed evs"
  by (simp add: elapsed_def)

lemma startIPFSDaemon_fold_timer:
  assumes "timer r = Some t" and "0 < t" and "promise r = Pending"
  shows "(elapsed evs < t \<longrightarrow>
            promise (fold (startIPFSDaemon_on w tmpLog) evs r) = Pending)
         \<and> (t \<le> elapsed evs \<longrightarrow>
            promise (fold (startIPFSDaemon_on w tmpLog) evs r) =
              Resolved (JProcess (getPathIPFSBinary w) [''daemon'']))"
  using assms
proof (induction evs arbitrary: r t)
  case Nil
  then show ?case by (simp add: elapsed_def)
next
  case (Cons e evs)
  show ?case
  proof (cases e)
    case (Elapse d)
    show ?thesis
    proof (cases "t \<le> d")
      case True
      let ?r = "startIPFSDaemon_on w tmpLog e r"
      have "timer ?r = None"
        and "promise ?r = Resolved (JProcess (getPathIPFSBinary w) [''daemon''])"
        using True Elapse Cons.prems by simp_all
      then have "promise (fold (startIPFSDaemon_on w tmpLog) evs ?r) =
                   Resolved (JProcess (getPathIPFSBinary w) [''daemon''])"
        using startIPFSDaemon_fold_no_timer[of ?r w tmpLog evs] by simp
      then show ?thesis using True Elapse by (simp add: elapsed_Cons)
    next
      case False
      let ?r = "startIPFSDaemon_on w tmpLog e r"
      have "timer ?r = Some (t - d)" and "0 < t - d" and "promise ?r = Pending"
        using False Elapse Cons.prems by simp_all
      from Cons.IH[OF this] show ?thesis
        using False Elapse by (auto simp: elapsed_Cons)
    qed
  next
    case (Close exit)
    let ?r = "startIPFSDaemon_on w tmpLog e r"
    have "timer ?r = Some t" and "promise ?r = Pending"
      using Close Cons.prems by simp_all
    from Cons.IH[OF this(1) Cons.prems(2) this(2)] show ?thesis
      using Close by (simp add: elapsed_Cons)
  next
    case (StdoutData data)
    let ?r = "startIPFSDaemon_on w tmpLog e r"
    have "timer ?r = Some t" and "promise ?r = Pending"
      using StdoutData Cons.prems by simp_all
    from Cons.IH[OF this(1) Cons.prems(2) this(2)] show ?thesis
      using StdoutData by (simp add: elapsed_Cons)
  next
    case (StderrData data)
    let ?r = "startIPFSDaemon_on w tmpLog e r"
    have "timer ?r = Some t" and "promise ?r = Pending"
      using StderrData Cons.prems by simp_all
    from Cons.IH[OF this(1) Cons.prems(2) this(2)] show ?thesis
      using StderrData by (simp add: elapsed_Cons)
  qed
qed

lemma startIPFSDaemon_on_spawns_probes:
  "spawns (trace (startIPFSDaemon_on w tmpLog e r)) = spawns (trace r)
   \<and> filter is_probe (trace (startIPFSDaemon_on w tmpLog e r)) = filter is_probe (trace r)"
  by (cases e) (simp_all add: spawns_def split: option.splits)

lemma startIPFSDaemon_fold_spawns_probes:
  "spawns (trace (fold (startIPFSDaemon_on w tmpLog) evs r)) = spawns (trace r)
   \<and> filter is_probe (trace (fold (startIPFSDaemon_on w tmpLog) evs r)) = filter is_probe (trace r)"
  by (induction evs arbitrary: r) (simp_all add: startIPFSDaemon_on_spawns_probes)


text \<open>
  C5, as amended. In \<^verbatim>\<open>src/app/daemon.js\<close>, \<^verbatim>\<open>startIPFSDaemon\<close> spawns the binary with the
  single argument \<^verbatim>\<open>daemon\<close>, and nothing else is ever spawned; its promise is pending
  as long as fewer than 1000 milliseconds have passed since the call and is resolved with
  the process handle once 1000 milliseconds have passed, whatever events the listeners
  handled in between; no shell command and no request is issued to probe the daemon. In the
  settings-aware version the call that spawns the daemon returns the promise already
  resolved with the handle, and sets no timer.
\<close>

theorem startIPFSDaemon_resolves_after_delay:
  "spawns (trace (fold (startIPFSDaemon_on w tmpLog) evs (startIPFSDaemon w tmpLog)))
     = [Spawn (getPathIPFSBinary w) [''daemon'']]
   \<and> filter is_probe (trace (fold (startIPFSDaemon_on w tmpLog) evs (startIPFSDaemon w tmpLog))) = []
   \<and> (elapsed evs < 1000 \<longrightarrow>
        promise (fold (startIPFSDaemon_on w tmpLog) evs (startIPFSDaemon w tmpLog)) = Pending)
   \<and> (1000 \<le> elapsed evs \<longrightarrow>
        promise (fold (startIPFSDaemon_on w tmpLog) evs (startIPFSDaemon w tmpLog))
          = Resolved (JProcess (getPathIPFSBinary w) [''daemon'']))
   \<and> (getSync w ''daemon.startIPFSAtStartup'' \<noteq> JBool False
        \<and> getPathIPFSBinary_settings w = JStr p \<longrightarrow>
        startIPFSDaemon_settings w =
          \<lparr> trace = [Spawn p [''daemon'']],
            promise = Resolved (JProcess p [''daemon'']),
            timer = None \<rparr>)"
proof -
  let ?r0 = "startIPFSDaemon w tmpLog"
  have t: "timer ?r0 = Some 1000" and p: "promise ?r0 = Pending"
    by (simp_all add: startIPFSDaemon_def Let_def)
  have a: "spawns (trace (fold (startIPFSDaemon_on w tmpLog) evs ?r0))
             = [Spawn (getPathIPFSBinary w) [''daemon'']]"
    by (simp add: startIPFSDaemon_fold_spawns_probes)
       (simp add: startIPFSDaemon_def Let_def spawns_def)
  have b: "filter is_probe (trace (fold (startIPFSDaemon_on w tmpLog) evs ?r0)) = []"
    by (simp add: startIPFSDaemon_fold_spawns_probes)
       (simp add: startIPFSDaemon_def Let_def)
  have c: "(elapsed evs < 1000 \<longrightarrow>
              promise (fold (startIPFSDaemon_on w tmpLog) evs ?r0) = Pending)
           \<and> (1000 \<le> elapsed evs \<longrightarrow>
              promise (fold (startIPFSDaemon_on w tmpLog) evs ?r0)
                = Resolved (JProcess (getPathIPFSBinary w) [''daemon'']))"
    using startIPFSDaemon_fold_timer[where r="?r0" and t=1000 and evs=evs and w=w and tmpLog=tmpLog] t p
    by simp
  have d: "getSync w ''daemon.startIPFSAtStartup'' \<noteq> JBool False
        \<and> getPathIPFSBinary_settings w = JStr p \<longrightarrow>
        startIPFSDaemon_settings w =
          \<lparr> trace = [Spawn p [''daemon'']],
            promise = Resolved (JProcess p [''daemon'']),
            timer = None \<rparr>"
    by (simp add: startIPFSDaemon_settings_def)
  from a b c d show ?thesis by blast
qed

lemma world_example_settings_path:
  "getSync world_example ''daemon.startIPFSAtStartup'' = JUndefined"
  "getPathIPFSBinary_settings world_example = JStr ''/opt/ipfs/ipfs''"
  by (simp_all add: getSync_def getPathIPFSBinary_settings_def js_or_def world_example_fields)

theorem startIPFSDaemon_resolves_after_delay_witness:
  "elapsed [StdoutData ''Initializing daemon...'', Elapse 400, Elapse 599] < 1000
   \<and> promise (fold (startIPFSDaemon_on world_example ''/tmp/tmp-1.log'')
                 [StdoutData ''Initializing daemon...'', Elapse 400, Elapse 599]
                 (startIPFSDaemon world_example ''/tmp/tmp-1.log'')) = Pending
   \<and> 1000 \<le> elapsed [Elapse 400, StderrData ''warning'', Elapse 600]
   \<and> promise (fold (startIPFSDaemon_on world_example ''/tmp/tmp-1.log'')
                 [Elapse 400, StderrData ''warning'', Elapse 600]
                 (startIPFSDaemon world_example ''/tmp/tmp-1.log''))
       = Resolved (JProcess ''/opt/Orion/go-ipfs/ipfs'' [''daemon''])
   \<and> getSync world_example ''daemon.startIPFSAtStartup'' \<noteq> JBool False
   \<and> getPathIPFSBinary_settings world_example = JStr ''/opt/ipfs/ipfs''
   \<and> promise (startIPFSDaemon_settings world_example)
       = Resolved (JProcess ''/opt/ipfs/ipfs'' [''daemon''])"
  using startIPFSDaemon_resolves_after_delay
          [of world_example "''/tmp/tmp-1.log''"
              "[StdoutData ''Initializing daemon...'', Elapse 400, Elapse 599]" "''/opt/ipfs/ipfs''"]
        startIPFSDaemon_resolves_after_delay
          [of world_example "''/tmp/tmp-1.log''"
              "[Elapse 400, StderrData ''warning'', Elapse 600]" "''/opt/ipfs/ipfs''"]
  by (simp add: elapsed_def world_example_settings_path getPathIPFSBinary_def world_example_fields)

text \<open>
  The settings-aware version: the call returns the promise resolved with the handle,
  before any time has passed.
\<close>

theorem startIPFSDaemon_settings_immediate_counterexample:
  "startIPFSDaemon_settings world_example =
     \<lparr> trace = [Spawn ''/opt/ipfs/ipfs'' [''daemon'']],
       promise = Resolved (JProcess ''/opt/ipfs/ipfs'' [''daemon'']),
       timer = None \<rparr>"
  by (simp add: startIPFSDaemon_settings_def world_example_settings_path)

section \<open>Locating the binary\<close>

text \<open>
  C6, as amended. In \<^verbatim>\<open>src/app/daemon.js\<close>, \<^verbatim>\<open>getPathIPFSBinary\<close> returns the bundled path
  \<^verbatim>\<open>go-ipfs/ipfs\<close> under the application root, whatever the settings hold. In the
  settings-aware version it returns the stored setting \<^verbatim>\<open>daemon.pathIPFSBinary\<close> when
  that is truthy (a non-empty string, for a stored path) and \<^verbatim>\<open>/usr/local/bin/ipfs\<close>
  otherwise. Neither looks at the file system.
\<close>

theorem getPathIPFSBinary_sources:
  "getPathIPFSBinary w = appRoot w @ ''/go-ipfs/ipfs''
   \<and> getPathIPFSBinary (w\<lparr>settings := st, files := fs\<rparr>) = getPathIPFSBinary w
   \<and> (truthy (getSync w ''daemon.pathIPFSBinary'') \<longrightarrow>
        getPathIPFSBinary_settings w = getSync w ''daemon.pathIPFSBinary'')
   \<and> (settings w ''daemon.pathIPFSBinary'' = Some (JStr p) \<and> p \<noteq> [] \<longrightarrow>
        getPathIPFSBinary_settings w = JStr p)
   \<and> (\<not> truthy (getSync w ''daemon.pathIPFSBinary'') \<longrightarrow>
        getPathIPFSBinary_settings w = JStr ''/usr/local/bin/ipfs'')
   \<and> (settings w ''daemon.pathIPFSBinary'' = None \<longrightarrow>
        getPathIPFSBinary_settings w = JStr ''/usr/local/bin/ipfs'')
   \<and> getPathIPFSBinary_settings (w\<lparr>files := fs\<rparr>) = getPathIPFSBinary_settings w"
  by (simp add: getPathIPFSBinary_def getPathIPFSBinary_settings_def js_or_def getSync_def)

theorem getPathIPFSBinary_sources_witness:
  "settings world_example ''daemon.pathIPFSBinary'' = Some (JStr ''/opt/ipfs/ipfs'')
   \<and> truthy (getSync world_example ''daemon.pathIPFSBinary'')
   \<and> getPathIPFSBinary_settings world_example = JStr ''/opt/ipfs/ipfs''
   \<and> settings (world_example\<lparr>settings := Map.empty\<rparr>) ''daemon.pathIPFSBinary'' = None
   \<and> \<not> truthy (getSync (world_example\<lparr>settings := Map.empty\<rparr>) ''daemon.pathIPFSBinary'')
   \<and> getPathIPFSBinary_settings (world_example\<lparr>settings := Map.empty\<rparr>) = JStr ''/usr/local/bin/ipfs''"
  using getPathIPFSBinary_sources [where w=world_example and st="settings world_example"
           and fs="files world_example" and p="''/opt/ipfs/ipfs''"]
        getPathIPFSBinary_sources [where w="world_example\<lparr>settings := Map.empty\<rparr>" and st=Map.empty
           and fs="{}" and p="''/opt/ipfs/ipfs''"]
  by (simp add: getSync_def world_example_fields)

text \<open>
  \<^verbatim>\<open>src/app/daemon.js\<close> with a binary path stored in the settings: the bundled path is
  returned, not the stored one.
\<close>

theorem getPathIPFSBinary_ignores_settings_counterexample:
  "settings world_example ''daemon.pathIPFSBinary'' = Some (JStr ''/opt/ipfs/ipfs'')
   \<and> getPathIPFSBinary world_example = ''/opt/Orion/go-ipfs/ipfs''"
  by (simp add: getPathIPFSBinary_def world_example_fields)

section \<open>Shell commands\<close>

text \<open>
  C2, as amended. \<^verbatim>\<open>setMultiAddrIPFSDaemon\<close> runs the one shell command
  \<^verbatim>\<open><binary> config Addresses.API /ip4/127.0.0.1/tcp/5001\<close> whatever arguments the caller
  passes, in both versions, and returns the promise of that command.
\<close>

theorem setMultiAddrIPFSDaemon_fixed_command:
  "setMultiAddrIPFSDaemon w arguments =
     ([Exec (getPathIPFSBinary w @ '' config Addresses.API /ip4/127.0.0.1/tcp/5001'')],
      shell w (getPathIPFSBinary w @ '' config Addresses.API /ip4/127.0.0.1/tcp/5001''))
   \<and> setMultiAddrIPFSDaemon_settings w arguments =
     ([Exec (toString (getPathIPFSBinary_settings w) @ '' config Addresses.API /ip4/127.0.0.1/tcp/5001'')],
      shell w (toString (getPathIPFSBinary_settings w) @ '' config Addresses.API /ip4/127.0.0.1/tcp/5001''))"
  by (simp add: setMultiAddrIPFSDaemon_def setMultiAddrIPFSDaemon_settings_def exec_def Let_def)

theorem setMultiAddrIPFSDaemon_fixed_command_witness:
  "setMultiAddrIPFSDaemon world_example [] =
     ([Exec ''/opt/Orion/go-ipfs/ipfs config Addresses.API /ip4/127.0.0.1/tcp/5001''], Resolved (JStr []))
   \<and> setMultiAddrIPFSDaemon_settings world_example [JStr ''/ip4/0.0.0.0/tcp/5002''] =
     ([Exec ''/opt/ipfs/ipfs config Addresses.API /ip4/127.0.0.1/tcp/5001''], Resolved (JStr []))"
  using setMultiAddrIPFSDaemon_fixed_command [of world_example "[]"]
        setMultiAddrIPFSDaemon_fixed_command [of world_example "[JStr ''/ip4/0.0.0.0/tcp/5002'']"]
  by (simp add: getPathIPFSBinary_def world_example_settings_path world_example_fields
        shell_def promisedExec_def runs_silent_def)

text \<open>
  A caller that passes the address \<^verbatim>\<open>/ip4/0.0.0.0/tcp/5002\<close>: the command configures
  \<^verbatim>\<open>/ip4/127.0.0.1/tcp/5001\<close> all the same.
\<close>

theorem setMultiAddrIPFSDaemon_ignores_addr_counterexample:
  "fst (setMultiAddrIPFSDaemon world_example [JStr ''/ip4/0.0.0.0/tcp/5002''])
     = [Exec ''/opt/Orion/go-ipfs/ipfs config Addresses.API /ip4/127.0.0.1/tcp/5001'']
   \<and> fst (setMultiAddrIPFSDaemon world_example [JStr ''/ip4/0.0.0.0/tcp/5002''])
     \<noteq> [Exec (getPathIPFSBinary world_example @ '' config Addresses.API '' @ ''/ip4/0.0.0.0/tcp/5002'')]"
  by (simp add: setMultiAddrIPFSDaemon_def exec_def getPathIPFSBinary_def world_example_fields Let_def)




text \<open>
  C10. \<^verbatim>\<open>setMultiAddrIPFSDaemon\<close> ignores what the caller passes and configures the address
  \<^verbatim>\<open>/ip4/127.0.0.1/tcp/5001\<close>; \<^verbatim>\<open>getMultiAddrIPFSDaemon\<close> returns the same address, in
  the settings-aware version whenever the setting \<^verbatim>\<open>daemon.multiAddrAPI\<close> does not
  override it. So the address the setter configures is the address the getter returns.
\<close>

theorem set_and_get_MultiAddr_agree:
  "getMultiAddrIPFSDaemon = ''/ip4/127.0.0.1/tcp/5001''
   \<and> fst (setMultiAddrIPFSDaemon w arguments) =
       [Exec (getPathIPFSBinary w @ '' config Addresses.API '' @ getMultiAddrIPFSDaemon)]
   \<and> (\<not> truthy (getSync w ''daemon.multiAddrAPI'') \<longrightarrow>
        getMultiAddrIPFSDaemon_settings w = JStr ''/ip4/127.0.0.1/tcp/5001''
        \<and> fst (setMultiAddrIPFSDaemon_settings w arguments) =
            [Exec (toString (getPathIPFSBinary_settings w) @ '' config Addresses.API '' @
                   toString (getMultiAddrIPFSDaemon_settings w))])"
  by (simp add: getMultiAddrIPFSDaemon_def setMultiAddrIPFSDaemon_def
        getMultiAddrIPFSDaemon_settings_def setMultiAddrIPFSDaemon_settings_def exec_def Let_def)

theorem set_and_get_MultiAddr_agree_witness:
  "\<not> truthy (getSync world_example ''daemon.multiAddrAPI'')
   \<and> getMultiAddrIPFSDaemon_settings world_example = JStr ''/ip4/127.0.0.1/tcp/5001''
   \<and> fst (setMultiAddrIPFSDaemon_settings world_example [JStr ''/ip4/0.0.0.0/tcp/5002'']) =
       [Exec ''/opt/ipfs/ipfs config Addresses.API /ip4/127.0.0.1/tcp/5001'']
   \<and> fst (setMultiAddrIPFSDaemon world_example [JStr ''/ip4/0.0.0.0/tcp/5002'']) =
       [Exec ''/opt/Orion/go-ipfs/ipfs config Addresses.API /ip4/127.0.0.1/tcp/5001'']"
  using set_and_get_MultiAddr_agree [of world_example "[JStr ''/ip4/0.0.0.0/tcp/5002'']"]
  by (simp add: getPathIPFSBinary_def getPathIPFSBinary_settings_def js_or_def getSync_def world_example_fields)

section \<open>The startup setting\<close>

text \<open>
  C9. In the settings-aware version, when the setting \<^verbatim>\<open>daemon.startIPFSAtStartup\<close> is
  exactly \<^verbatim>\<open>false\<close>, \<^verbatim>\<open>startIPFSDaemon\<close> spawns nothing and returns a promise resolved
  with \<^verbatim>\<open>undefined\<close>; so a promise resolved with a process handle means that the
  setting was not \<^verbatim>\<open>false\<close>.
\<close>

theorem startIPFSDaemon_settings_startup_false:
  "(getSync w ''daemon.startIPFSAtStartup'' = JBool False \<longrightarrow>
      startIPFSDaemon_settings w = \<lparr> trace = [], promise = Resolved JUndefined, timer = None \<rparr>)
   \<and> (promise (startIPFSDaemon_settings w) = Resolved (JProcess f a) \<longrightarrow>
      getSync w ''daemon.startIPFSAtStartup'' \<noteq> JBool False)"
  by (simp add: startIPFSDaemon_settings_def)

lemma getSync_settings_update:
  "getSync (w\<lparr>settings := (settings w)(k \<mapsto> v)\<rparr>) k = v"
  by (simp add: getSync_def)

theorem startIPFSDaemon_settings_startup_false_witness:
  "getSync (world_example\<lparr>settings := (settings world_example)(''daemon.startIPFSAtStartup'' \<mapsto> JBool False)\<rparr>)
      ''daemon.startIPFSAtStartup'' = JBool False
   \<and> startIPFSDaemon_settings
        (world_example\<lparr>settings := (settings world_example)(''daemon.startIPFSAtStartup'' \<mapsto> JBool False)\<rparr>)
       = \<lparr> trace = [], promise = Resolved JUndefined, timer = None \<rparr>
   \<and> promise (startIPFSDaemon_settings world_example) = Resolved (JProcess ''/opt/ipfs/ipfs'' [''daemon''])
   \<and> getSync world_example ''daemon.startIPFSAtStartup'' \<noteq> JBool False"
  using startIPFSDaemon_settings_startup_false
          [of "world_example\<lparr>settings := (settings world_example)(''daemon.startIPFSAtStartup'' \<mapsto> JBool False)\<rparr>"
              "''/opt/ipfs/ipfs''" "[''daemon'']"]
        startIPFSDaemon_settings_startup_false [of world_example "''/opt/ipfs/ipfs''" "[''daemon'']"]
  by (simp add: getSync_settings_update startIPFSDaemon_settings_def world_example_settings_path)

end
